theory Spec2Isabelle
  imports Main "HOL-Library.Word"
begin

section \<open>JavaScript strings\<close>

text \<open>
  A JavaScript string is a sequence of 16-bit code units; \<open>s.length\<close> counts code units
  and a regular expression without the \<open>u\<close> flag tests code units. String literals of
  the source are ASCII and are written \<open>js ''...''\<close>.
\<close>

type_synonym jsstring = "16 word list"

definition js :: "string \<Rightarrow> jsstring" where
  "js s = map (\<lambda>c. of_nat (of_char c)) s"

text \<open>The character classes of the regular expressions in \<open>models/User.js\<close>.\<close>

definition isUpper :: "16 word \<Rightarrow> bool" where
  "isUpper c = (0x41 \<le> c \<and> c \<le> 0x5A)"

definition isLower :: "16 word \<Rightarrow> bool" where
  "isLower c = (0x61 \<le> c \<and> c \<le> 0x7A)"

definition isDigit :: "16 word \<Rightarrow> bool" where
  "isDigit c = (0x30 \<le> c \<and> c \<le> 0x39)"

definition isSpecial :: "16 word \<Rightarrow> bool" where
  "isSpecial c = (\<not> (isUpper c \<or> isLower c \<or> isDigit c))"

text \<open>
  The code units that \<open>\s\<close> matches and that \<open>String.prototype.trim\<close> strips
  (ECMAScript WhiteSpace and LineTerminator).
\<close>

definition isWhiteSpace :: "16 word \<Rightarrow> bool" where
  "isWhiteSpace c =
     (c \<in> set [0x09, 0x0A, 0x0B, 0x0C, 0x0D, 0x20, 0xA0, 0x1680, 0x2028, 0x2029,
                0x202F, 0x205F, 0x3000, 0xFEFF]
      \<or> (0x2000 \<le> c \<and> c \<le> 0x200A))"

definition trim :: "jsstring \<Rightarrow> jsstring" where
  "trim s = rev (dropWhile isWhiteSpace (rev (dropWhile isWhiteSpace s)))"

text \<open>
  \<open>String.prototype.toLowerCase\<close> follows the Unicode case tables, which are not part of
  the repository. Every function below that calls it takes it as its parameter
  \<open>toLowerCase\<close>, a function from strings to strings.
\<close>

text \<open>\<open>Array.prototype.join\<close>.\<close>

fun join :: "jsstring \<Rightarrow> jsstring list \<Rightarrow> jsstring" where
  "join sep [] = []"
| "join sep [x] = x"
| "join sep (x # y # ys) = x @ sep @ join sep (y # ys)"

text \<open>
  \<open>String.prototype.split\<close> with a separator of one code unit: the empty string splits
  into one empty piece, and two separators in a row enclose an empty piece.
\<close>

fun split :: "16 word \<Rightarrow> jsstring \<Rightarrow> jsstring list" where
  "split sep [] = [[]]"
| "split sep (c # cs) =
     (if c = sep then [] # split sep cs
      else (case split sep cs of
              [] \<Rightarrow> [[c]]
            | p # ps \<Rightarrow> (c # p) # ps))"

text \<open>
  A value that is a string or \<open>undefined\<close> is a \<open>jsstring option\<close>; it is falsy when it is
  \<open>undefined\<close> or the empty string.
\<close>

definition falsy :: "jsstring option \<Rightarrow> bool" where
  "falsy v = (case v of None \<Rightarrow> True | Some s \<Rightarrow> s = [])"

section \<open>Errors\<close>

text \<open>
  A thrown JavaScript error, with the properties that the handlers of
  \<open>routes/auth.js\<close> read: \<open>name\<close>, \<open>message\<close>, \<open>statusCode\<close>, \<open>code\<close>, and for a
  Mongoose \<open>ValidationError\<close> the messages of the values of \<open>errors\<close>.
\<close>

record jserror =
  err_name :: jsstring
  err_message :: jsstring
  statusCode :: "nat option"
  err_code :: "nat option"
  err_errors :: "jsstring list"

text \<open>\<open>new Error(message)\<close>.\<close>

definition Error :: "jsstring \<Rightarrow> jserror" where
  "Error msg =
     \<lparr>err_name = js ''Error'', err_message = msg, statusCode = None, err_code = None,
      err_errors = []\<rparr>"

text \<open>\<open>String(err)\<close> for an error object: \<open>Error.prototype.toString\<close>.\<close>

definition errorToString :: "jserror \<Rightarrow> jsstring" where
  "errorToString e =
     (if err_name e = [] then err_message e
      else if err_message e = [] then err_name e
      else err_name e @ js '': '' @ err_message e)"

section \<open>The user model (\<open>models/User.js\<close>)\<close>

type_synonym objectId = "96 word"

text \<open>
  A user document. The fields \<open>createdAt\<close> and \<open>updatedAt\<close> that \<open>timestamps: true\<close>
  adds are read nowhere and are left out.
\<close>

record user =
  uid :: objectId
  name :: jsstring
  email :: jsstring
  password :: jsstring
  role :: jsstring

subsection \<open>The pre-save hook: password strength and hashing\<close>

text \<open>The \<open>errors\<close> array of the hook after its five tests, in the order of the pushes.\<close>

definition strengthErrors :: "jsstring \<Rightarrow> jsstring list" where
  "strengthErrors pw =
     (if length pw < 8 then [js ''Must be at least 8 characters.''] else []) @
     (if \<not> list_ex isUpper pw
        then [js ''Must contain at least one uppercase letter (A-Z).''] else []) @
     (if \<not> list_ex isLower pw
        then [js ''Must contain at least one lowercase letter (a-z).''] else []) @
     (if \<not> list_ex isDigit pw
        then [js ''Must contain at least one number (0-9).''] else []) @
     (if \<not> list_ex isSpecial pw
        then [js ''Must contain at least one special character (e.g., !@#$%^&*).'']
        else [])"

text \<open>The error of the hook: its message joins the array, its \<open>statusCode\<close> is 400.\<close>

definition weakPasswordError :: "jsstring list \<Rightarrow> jserror" where
  "weakPasswordError errors =
     (Error (js ''Password is too weak. '' @ join (js '' '') errors))
       \<lparr>statusCode := Some 400\<rparr>"

text \<open>
  \<open>validateStrength\<close> is the first half of the hook: the five tests and the error they
  raise together.
\<close>

definition validateStrength :: "jsstring \<Rightarrow> jserror + unit" where
  "validateStrength pw =
     (let errors = strengthErrors pw
      in if length errors > 0 then Inl (weakPasswordError errors) else Inr ())"

text \<open>
  The hook of \<open>userSchema.pre('save')\<close>. \<open>bcrypt.hash\<close> belongs to the bcryptjs package
  and is a parameter: it returns the hash or throws. The hook leaves a document whose
  password is not modified as it is; otherwise it validates, and hashes with 12 rounds.
\<close>

definition preSave ::
  "(jsstring \<Rightarrow> nat \<Rightarrow> jserror + jsstring) \<Rightarrow> bool \<Rightarrow> user \<Rightarrow> jserror + user" where
  "preSave bcrypt_hash isModified_password this =
     (if \<not> isModified_password then Inr this
      else (case validateStrength (password this) of
              Inl error \<Rightarrow> Inl error
            | Inr _ \<Rightarrow>
                (case bcrypt_hash (password this) 12 of
                   Inl err \<Rightarrow> Inl err
                 | Inr h \<Rightarrow> Inr (this\<lparr>password := h\<rparr>))))"

subsection \<open>The schema: setters, defaults and validators\<close>

text \<open>
  The schema of \<open>models/User.js\<close> declares, for each path, Mongoose options. Mongoose is
  not part of the repository; the options are read as its documentation defines them:
  \<^item> \<open>trim\<close> and \<open>lowercase\<close> are setters, applied when a document is built and when
    a query filter on the path is cast; \<open>lowercase\<close> applies
    \<open>String.prototype.toLowerCase\<close>;
  \<^item> \<open>default\<close> fills a path that the constructor's argument leaves out;
  \<^item> \<open>required\<close>, \<open>match\<close>, \<open>minlength\<close>, \<open>maxlength\<close> and \<open>enum\<close> are validators,
    run by \<open>save\<close> before every \<open>pre('save')\<close> hook; each path reports its first
    failing validator, and a failure rejects the save with a \<open>ValidationError\<close>;
  \<^item> \<open>unique\<close> is a unique index of the collection: inserting a second document with
    the same value fails with the duplicate-key error of code 11000.
\<close>

definition setName :: "jsstring \<Rightarrow> jsstring" where
  "setName v = trim v"

definition setEmail :: "(jsstring \<Rightarrow> jsstring) \<Rightarrow> jsstring \<Rightarrow> jsstring" where
  "setEmail toLowerCase v = toLowerCase (trim v)"

text \<open>
  The argument of \<open>new User({...})\<close>: each path is given or left out. The identifier of
  the new document is drawn by the driver and is an input.
\<close>

record userInput =
  in_name :: "jsstring option"
  in_email :: "jsstring option"
  in_password :: "jsstring option"
  in_role :: "jsstring option"

text \<open>
  A path that is left out and has no default stays \<open>undefined\<close>; the \<open>required\<close>
  validator treats it as it treats the empty string, so it is stored here as \<open>[]\<close>.
\<close>

definition User_new :: "(jsstring \<Rightarrow> jsstring) \<Rightarrow> objectId \<Rightarrow> userInput \<Rightarrow> user" where
  "User_new toLowerCase oid obj =
     \<lparr>uid = oid,
      name = (case in_name obj of None \<Rightarrow> [] | Some v \<Rightarrow> setName v),
      email = (case in_email obj of None \<Rightarrow> [] | Some v \<Rightarrow> setEmail toLowerCase v),
      password = (case in_password obj of None \<Rightarrow> [] | Some v \<Rightarrow> v),
      role = (case in_role obj of None \<Rightarrow> js ''student'' | Some v \<Rightarrow> v)\<rparr>"

text \<open>
  The regular expression \<open>/^\S+@\S+\.\S+$/\<close>: no white space anywhere, an \<open>@\<close> at some
  index \<open>i \<ge> 1\<close>, and a dot at some index \<open>j \<ge> i + 2\<close> that is not the last code unit.
\<close>

definition matchEmail :: "jsstring \<Rightarrow> bool" where
  "matchEmail s =
     (\<not> list_ex isWhiteSpace s \<and>
      list_ex (\<lambda>i. s ! i = 0x40 \<and> list_ex (\<lambda>j. s ! j = 0x2E) [i + 2 ..< length s - 1])
        [1 ..< length s])"

definition requiredMessage :: "string \<Rightarrow> jsstring" where
  "requiredMessage path = js ''Path '' @ [0x60] @ js path @ [0x60] @ js '' is required.''"

definition enumMessage :: "jsstring \<Rightarrow> string \<Rightarrow> jsstring" where
  "enumMessage v path =
     [0x60] @ v @ [0x60] @ js '' is not a valid enum value for path '' @ [0x60] @ js path @
     [0x60] @ js ''.''"

text \<open>The validators of one path each; the result is the message of the first that fails.\<close>

definition validateName :: "jsstring \<Rightarrow> jsstring option" where
  "validateName v = (if v = [] then Some (requiredMessage ''name'') else None)"

definition validateEmail :: "jsstring \<Rightarrow> jsstring option" where
  "validateEmail v =
     (if v = [] then Some (requiredMessage ''email'')
      else if \<not> matchEmail v then Some (js ''Please enter a valid email address.'')
      else None)"

definition validatePassword :: "jsstring \<Rightarrow> jsstring option" where
  "validatePassword v =
     (if v = [] then Some (requiredMessage ''password'')
      else if length v < 8 then Some (js ''Password must be at least 8 characters long.'')
      else if length v > 128 then Some (js ''Password cannot exceed 128 characters.'')
      else None)"

definition validateRole :: "jsstring \<Rightarrow> jsstring option" where
  "validateRole v =
     (if v \<in> set [js ''student'', js ''admin''] then None
      else Some (enumMessage v ''role''))"

text \<open>The messages of the failing paths of a document, in the order of the schema.\<close>

definition validationMessages :: "user \<Rightarrow> jsstring list" where
  "validationMessages doc =
     List.map_filter (\<lambda>x. x)
       [validateName (name doc), validateEmail (email doc),
        validatePassword (password doc), validateRole (role doc)]"

text \<open>
  The \<open>ValidationError\<close> of Mongoose. Its own \<open>message\<close> lists paths and messages in the
  library's layout; the handlers never read it, and it is kept as the joined messages.
\<close>

definition ValidationError :: "jsstring list \<Rightarrow> jserror" where
  "ValidationError msgs =
     \<lparr>err_name = js ''ValidationError'',
      err_message = js ''User validation failed: '' @ join (js '', '') msgs,
      statusCode = None, err_code = None, err_errors = msgs\<rparr>"

text \<open>The duplicate-key error of the database driver: its \<open>code\<close> is 11000.\<close>

definition duplicateKeyError :: jserror where
  "duplicateKeyError =
     \<lparr>err_name = js ''MongoServerError'', err_message = js ''E11000 duplicate key error'',
      statusCode = None, err_code = Some 11000, err_errors = []\<rparr>"

subsection \<open>The collection\<close>

text \<open>
  The collection of users is the list of its documents in insertion order. Failures of
  the connection to the database are outside the model.
\<close>

type_synonym users = "user list"

text \<open>
  \<open>user.save()\<close> for a new document: the validators, then the hook (every path of a new
  document is modified), then the insertion under the unique index on \<open>email\<close>.
\<close>

definition User_save ::
  "(jsstring \<Rightarrow> nat \<Rightarrow> jserror + jsstring) \<Rightarrow> users \<Rightarrow> user \<Rightarrow> jserror + user \<times> users" where
  "User_save bcrypt_hash db doc =
     (case validationMessages doc of
        m # ms \<Rightarrow> Inl (ValidationError (m # ms))
      | [] \<Rightarrow>
          (case preSave bcrypt_hash True doc of
             Inl err \<Rightarrow> Inl err
           | Inr saved \<Rightarrow>
               if list_ex (\<lambda>u. email u = email saved) db then Inl duplicateKeyError
               else Inr (saved, db @ [saved])))"

text \<open>
  \<open>User.findOne({ email })\<close>: the filter value is cast with the setters of the path, and
  the first document with that email is returned.
\<close>

definition User_findOne :: "(jsstring \<Rightarrow> jsstring) \<Rightarrow> users \<Rightarrow> jsstring \<Rightarrow> user option" where
  "User_findOne toLowerCase db e = find (\<lambda>u. email u = setEmail toLowerCase e) db"

text \<open>
  \<open>comparePassword\<close>: the result of \<open>bcrypt.compare\<close> on the candidate and the stored
  password; an error that \<open>bcrypt.compare\<close> throws is thrown again, wrapped in a new
  \<open>Error\<close>. \<open>bcrypt.compare\<close> belongs to the bcryptjs package and is a parameter.
\<close>

definition comparePassword ::
  "(jsstring \<Rightarrow> jsstring \<Rightarrow> jserror + bool) \<Rightarrow> user \<Rightarrow> jsstring \<Rightarrow> jserror + bool" where
  "comparePassword bcrypt_compare this candidatePassword =
     (case bcrypt_compare candidatePassword (password this) of
        Inr b \<Rightarrow> Inr b
      | Inl err \<Rightarrow> Inl (Error (errorToString err)))"

section \<open>The routes (\<open>routes/auth.js\<close>)\<close>

text \<open>
  The body of a request, as the handlers destructure it: each field is a string or is
  missing. \<open>b_role\<close> stands for a field that the handlers do not destructure.
\<close>

record body =
  b_name :: "jsstring option"
  b_email :: "jsstring option"
  b_password :: "jsstring option"
  b_role :: "jsstring option"

text \<open>
  The JSON of a response: \<open>{ msg }\<close>, \<open>{ error }\<close>, or
  \<open>{ token, user: { id, name, email } }\<close>.
\<close>

datatype json =
    MsgBody jsstring
  | ErrorBody jsstring
  | AuthBody jsstring objectId jsstring jsstring

record response =
  status :: nat
  json :: json

text \<open>The option \<open>expiresIn: '7d'\<close> of both calls of \<open>jwt.sign\<close>, in seconds.\<close>

definition sevenDays :: nat where
  "sevenDays = 7 * 24 * 60 * 60"

definition enterAllFields :: response where
  "enterAllFields = \<lparr>status = 400, json = MsgBody (js ''Please enter all fields'')\<rparr>"

definition userExists :: response where
  "userExists = \<lparr>status = 400, json = MsgBody (js ''User already exists with this email'')\<rparr>"

definition invalidCredentials :: response where
  "invalidCredentials = \<lparr>status = 400, json = MsgBody (js ''Invalid credentials'')\<rparr>"

text \<open>The \<open>catch\<close> block of the signup handler.\<close>

definition signupCatch :: "jserror \<Rightarrow> response" where
  "signupCatch err =
     (if err_name err = js ''ValidationError''
        then \<lparr>status = 400, json = MsgBody (join (js '' '') (err_errors err))\<rparr>
      else if statusCode err = Some 400
        then \<lparr>status = 400, json = MsgBody (err_message err)\<rparr>
      else if err_code err = Some 11000 then userExists
      else \<lparr>status = 500, json = ErrorBody (js ''Server error during signup'')\<rparr>)"

text \<open>
  \<open>POST /signup\<close>. \<open>jwt.sign\<close> belongs to the jsonwebtoken package and is a parameter,
  called with the identifier for the payload \<open>{ id }\<close>, the secret key and the lifetime.
  The handler returns the response and the collection as it leaves it.
\<close>

definition signup ::
  "(jsstring \<Rightarrow> jsstring) \<Rightarrow>
   (jsstring \<Rightarrow> nat \<Rightarrow> jserror + jsstring) \<Rightarrow> (objectId \<Rightarrow> 'k \<Rightarrow> nat \<Rightarrow> jserror + jsstring) \<Rightarrow>
   'k \<Rightarrow> objectId \<Rightarrow> users \<Rightarrow> body \<Rightarrow> response \<times> users" where
  "signup toLowerCase bcrypt_hash jwt_sign JWT_SECRET newId db req =
     (if falsy (b_name req) \<or> falsy (b_email req) \<or> falsy (b_password req)
        then (enterAllFields, db)
      else
        (case (b_name req, b_email req, b_password req) of
           (Some n, Some e, Some p) \<Rightarrow>
             (case User_findOne toLowerCase db e of
                Some existing \<Rightarrow> (userExists, db)
              | None \<Rightarrow>
                  (case User_save bcrypt_hash db
                          (User_new toLowerCase newId
                             \<lparr>in_name = Some n, in_email = Some e, in_password = Some p,
                              in_role = None\<rparr>) of
                     Inl err \<Rightarrow> (signupCatch err, db)
                   | Inr (savedUser, db') \<Rightarrow>
                       (case jwt_sign (uid savedUser) JWT_SECRET sevenDays of
                          Inl err \<Rightarrow> (signupCatch err, db')
                        | Inr token \<Rightarrow>
                            (\<lparr>status = 201,
                              json = AuthBody token (uid savedUser) (name savedUser)
                                       (email savedUser)\<rparr>, db'))))
         | _ \<Rightarrow> (enterAllFields, db)))"

text \<open>The \<open>catch\<close> block of the login handler.\<close>

definition loginCatch :: "jserror \<Rightarrow> response" where
  "loginCatch err = \<lparr>status = 500, json = ErrorBody (js ''Server error during login'')\<rparr>"

text \<open>\<open>POST /login\<close>. \<open>res.json\<close> without \<open>res.status\<close> answers with status 200.\<close>

definition login ::
  "(jsstring \<Rightarrow> jsstring) \<Rightarrow>
   (jsstring \<Rightarrow> jsstring \<Rightarrow> jserror + bool) \<Rightarrow> (objectId \<Rightarrow> 'k \<Rightarrow> nat \<Rightarrow> jserror + jsstring) \<Rightarrow>
   'k \<Rightarrow> users \<Rightarrow> body \<Rightarrow> response" where
  "login toLowerCase bcrypt_compare jwt_sign JWT_SECRET db req =
     (if falsy (b_email req) \<or> falsy (b_password req) then enterAllFields
      else
        (case (b_email req, b_password req) of
           (Some e, Some p) \<Rightarrow>
             (case User_findOne toLowerCase db e of
                None \<Rightarrow> invalidCredentials
              | Some user \<Rightarrow>
                  (case comparePassword bcrypt_compare user p of
                     Inl err \<Rightarrow> loginCatch err
                   | Inr isMatch \<Rightarrow>
                       if \<not> isMatch then invalidCredentials
                       else
                         (case jwt_sign (uid user) JWT_SECRET sevenDays of
                            Inl err \<Rightarrow> loginCatch err
                          | Inr token \<Rightarrow>
                              \<lparr>status = 200,
                               json = AuthBody token (uid user) (name user) (email user)\<rparr>)))
         | _ \<Rightarrow> enterAllFields))"

section \<open>The authentication middleware (\<open>server.js\<close>)\<close>

text \<open>
  The middleware ends the request with a status, or stores the decoded payload in
  \<open>req.user\<close> and calls \<open>next\<close>.
\<close>

datatype 'a middleware = SendStatus nat | Next 'a

text \<open>\<open>xs[i]\<close> on an array: \<open>undefined\<close> beyond its end.\<close>

definition at :: "'a list \<Rightarrow> nat \<Rightarrow> 'a option" where
  "at xs i = (if i < length xs then Some (xs ! i) else None)"

text \<open>
  \<open>authenticateToken\<close>. The token is \<open>authHeader && authHeader.split(' ')[1]\<close>: a falsy
  header is the token itself. \<open>jwt.verify\<close> is a parameter; whatever error it reports,
  the status is 403.
\<close>

definition authenticateToken ::
  "(jsstring \<Rightarrow> 'k \<Rightarrow> 'e + 'a) \<Rightarrow> 'k \<Rightarrow> jsstring option \<Rightarrow> 'a middleware" where
  "authenticateToken jwt_verify JWT_SECRET authHeader =
     (let token = (if falsy authHeader then authHeader
                   else (case authHeader of
                           None \<Rightarrow> None
                         | Some h \<Rightarrow> at (split 0x20 h) 1))
      in if falsy token then SendStatus 401
         else (case token of
                 None \<Rightarrow> SendStatus 401
               | Some t \<Rightarrow>
                   (case jwt_verify t JWT_SECRET of
                      Inl err \<Rightarrow> SendStatus 403
                    | Inr user \<Rightarrow> Next user)))"

section \<open>The rules of \<open>validateStrength\<close>, one by one\<close>

datatype rule = RuleLength | RuleUpper | RuleLower | RuleDigit | RuleSpecial

definition allRules :: "rule list" where
  "allRules = [RuleLength, RuleUpper, RuleLower, RuleDigit, RuleSpecial]"

text \<open>The message that the hook pushes for each rule.\<close>

fun ruleMessage :: "rule \<Rightarrow> jsstring" where
  "ruleMessage RuleLength = js ''Must be at least 8 characters.''"
| "ruleMessage RuleUpper = js ''Must contain at least one uppercase letter (A-Z).''"
| "ruleMessage RuleLower = js ''Must contain at least one lowercase letter (a-z).''"
| "ruleMessage RuleDigit = js ''Must contain at least one number (0-9).''"
| "ruleMessage RuleSpecial =
     js ''Must contain at least one special character (e.g., !@#$%^&*).''"

text \<open>
  The five rules as the specification words them: the length rule has a lower and an
  upper bound.
\<close>

fun specRuleHolds :: "rule \<Rightarrow> jsstring \<Rightarrow> bool" where
  "specRuleHolds RuleLength s = (8 \<le> length s \<and> length s \<le> 128)"
| "specRuleHolds RuleUpper s = list_ex isUpper s"
| "specRuleHolds RuleLower s = list_ex isLower s"
| "specRuleHolds RuleDigit s = list_ex isDigit s"
| "specRuleHolds RuleSpecial s = list_ex isSpecial s"

text \<open>The five rules as the hook tests them: the length rule has a lower bound only.\<close>

fun hookRuleHolds :: "rule \<Rightarrow> jsstring \<Rightarrow> bool" where
  "hookRuleHolds RuleLength s = (8 \<le> length s)"
| "hookRuleHolds RuleUpper s = list_ex isUpper s"
| "hookRuleHolds RuleLower s = list_ex isLower s"
| "hookRuleHolds RuleDigit s = list_ex isDigit s"
| "hookRuleHolds RuleSpecial s = list_ex isSpecial s"

text \<open>
  What "all violated rules are collected and returned together" asks of a validator,
  for a given reading of the rules: success when no rule is violated, and otherwise
  the one error that carries the messages of exactly the violated rules.
\<close>

definition violated :: "(rule \<Rightarrow> jsstring \<Rightarrow> bool) \<Rightarrow> jsstring \<Rightarrow> rule list" where
  "violated holds s = filter (\<lambda>r. \<not> holds r s) allRules"

definition collectsAll :: "(rule \<Rightarrow> jsstring \<Rightarrow> bool) \<Rightarrow> jsstring \<Rightarrow> jserror + unit" where
  "collectsAll holds s =
     (case violated holds s of
        [] \<Rightarrow> Inr ()
      | v # vs \<Rightarrow> Inl (weakPasswordError (map ruleMessage (v # vs))))"

section \<open>The credential hash and the session token of the specification\<close>

text \<open>
  Modelled from the spec: \<open>hash\<close> and \<open>verify\<close> of the Credential Manager. The
  repository calls \<open>bcrypt.hash\<close> and \<open>bcrypt.compare\<close> of the bcryptjs package, whose
  code is not among the sources. The specification asks for a salted hash with work
  factor 12 and for a verification that compares a fresh hash of the candidate with
  the stored one; so a stored hash records the work factor and the salt beside the
  digest. The digest function itself is a parameter. A bcrypt salt has 128 bits and a
  bcrypt digest 184 bits. The salt, drawn afresh by every call of \<open>hash\<close>, is an input.
\<close>

record secretHash =
  workFactor :: nat
  salt :: "128 word"
  digest :: "184 word"

definition hashSecret ::
  "(nat \<Rightarrow> 128 word \<Rightarrow> jsstring \<Rightarrow> 184 word) \<Rightarrow> 128 word \<Rightarrow> jsstring \<Rightarrow> secretHash" where
  "hashSecret kdf slt secret =
     \<lparr>workFactor = 12, salt = slt, digest = kdf 12 slt secret\<rparr>"

definition verifySecret ::
  "(nat \<Rightarrow> 128 word \<Rightarrow> jsstring \<Rightarrow> 184 word) \<Rightarrow> jsstring \<Rightarrow> secretHash \<Rightarrow> bool" where
  "verifySecret kdf candidate storedHash =
     (kdf (workFactor storedHash) (salt storedHash) candidate = digest storedHash)"

text \<open>
  Modelled from the spec: \<open>issue\<close> and \<open>verify\<close> of the Session Token Issuer/Verifier.
  The repository calls \<open>jwt.sign\<close> and \<open>jwt.verify\<close> of the jsonwebtoken package, whose
  code is not among the sources. A token binds the subject, the time of issue and the
  time of expiry, and carries a signature of them under the secret key; the signing
  function is a parameter. Times are in seconds. Verification checks the signature
  first and the expiry second.
\<close>

datatype authError = InvalidToken | ExpiredToken

record claims =
  subject :: objectId
  issuedAt :: nat
  expiresAt :: nat

record 's token =
  payload :: claims
  signature :: 's

definition issueToken :: "('k \<Rightarrow> claims \<Rightarrow> 's) \<Rightarrow> 'k \<Rightarrow> nat \<Rightarrow> nat \<Rightarrow> objectId \<Rightarrow> 's token" where
  "issueToken mac key now ttl subj =
     (let c = \<lparr>subject = subj, issuedAt = now, expiresAt = now + ttl\<rparr>
      in \<lparr>payload = c, signature = mac key c\<rparr>)"

definition verifyToken ::
  "('k \<Rightarrow> claims \<Rightarrow> 's) \<Rightarrow> 'k \<Rightarrow> nat \<Rightarrow> 's token \<Rightarrow> authError + claims" where
  "verifyToken mac key now tok =
     (if signature tok \<noteq> mac key (payload tok) then Inl InvalidToken
      else if expiresAt (payload tok) \<le> now then Inl ExpiredToken
      else Inr (payload tok))"

text \<open>
  Modelled from the spec: the same two operations on the encoded token, the string
  that the handlers return and the middleware receives. The encoding of a token and
  its decoding are parameters; a string that does not decode is a malformed token.
  In this shape they stand for the parameters \<open>jwt_sign\<close> and \<open>jwt_verify\<close> of the
  handlers and of the middleware.
\<close>

definition jwtSign ::
  "('s token \<Rightarrow> jsstring) \<Rightarrow> ('k \<Rightarrow> claims \<Rightarrow> 's) \<Rightarrow> nat \<Rightarrow>
   objectId \<Rightarrow> 'k \<Rightarrow> nat \<Rightarrow> jserror + jsstring" where
  "jwtSign encode mac now subj key ttl = Inr (encode (issueToken mac key now ttl subj))"

definition jwtVerify ::
  "(jsstring \<Rightarrow> 's token option) \<Rightarrow> ('k \<Rightarrow> claims \<Rightarrow> 's) \<Rightarrow> nat \<Rightarrow>
   jsstring \<Rightarrow> 'k \<Rightarrow> authError + claims" where
  "jwtVerify decode mac now t key =
     (case decode t of
        None \<Rightarrow> Inl InvalidToken
      | Some tok \<Rightarrow> verifyToken mac key now tok)"

section \<open>Sample values\<close>

text \<open>
  The account of the end-to-end example of the specification (\<open>name = "A"\<close>,
  \<open>email = "a@b.com"\<close>, \<open>password = "Abcdef1!"\<close>), and stand-ins for the library
  functions on which the examples below run the handlers. \<open>asciiLowerCase\<close> stands in
  for \<open>toLowerCase\<close>: it lower-cases the letters \<open>A-Z\<close> and so agrees with it on the
  ASCII strings of the examples. \<open>sampleHash\<close> and \<open>sampleCompare\<close> are a toy pair, not
  bcrypt.
\<close>

definition asciiLowerUnit :: "16 word \<Rightarrow> 16 word" where
  "asciiLowerUnit c = (if isUpper c then c + 0x20 else c)"

definition asciiLowerCase :: "jsstring \<Rightarrow> jsstring" where
  "asciiLowerCase s = map asciiLowerUnit s"

definition sampleHash :: "jsstring \<Rightarrow> nat \<Rightarrow> jserror + jsstring" where
  "sampleHash s rounds = Inr (js ''hashed:'' @ s)"

definition sampleCompare :: "jsstring \<Rightarrow> jsstring \<Rightarrow> jserror + bool" where
  "sampleCompare s h = Inr (h = js ''hashed:'' @ s)"

definition sampleSign :: "objectId \<Rightarrow> unit \<Rightarrow> nat \<Rightarrow> jserror + jsstring" where
  "sampleSign i k ttl = Inr (js ''header.payload.signature'')"

definition alice :: user where
  "alice =
     \<lparr>uid = 7, name = js ''A'', email = js ''a@b.com'', password = js ''hashed:Abcdef1!'',
      role = js ''student''\<rparr>"

text \<open>
  A stand-in for \<open>bcrypt.compare\<close> that, as bcryptjs does, answers \<open>false\<close> for a stored
  string whose length is not 60 and throws for a string of 60 characters that does not
  begin with \<open>$2\<close>. What it answers for any other string plays no part below.
\<close>

definition rejectingCompare :: "jsstring \<Rightarrow> jsstring \<Rightarrow> jserror + bool" where
  "rejectingCompare s h =
     (if length h \<noteq> 60 then Inr False
      else if take 2 h \<noteq> js ''$2''
        then Inl (Error (js ''Invalid salt version: '' @ take 2 h))
      else Inr False)"

text \<open>A signing function, an encoding and a decoding for one sample token.\<close>

definition sampleMac :: "nat \<Rightarrow> claims \<Rightarrow> nat" where
  "sampleMac key c = key + issuedAt c + expiresAt c"

definition sampleToken :: "nat token" where
  "sampleToken = issueToken sampleMac 42 1000 sevenDays 7"

definition sampleEncode :: "nat token \<Rightarrow> jsstring" where
  "sampleEncode tok = js ''header.payload.signature''"

definition sampleDecode :: "jsstring \<Rightarrow> nat token option" where
  "sampleDecode s = (if s = js ''header.payload.signature'' then Some sampleToken else None)"

section \<open>Properties of strings\<close>

lemmas charClasses = isUpper_def isLower_def isDigit_def isSpecial_def

lemma isWhiteSpace_unat:
  "isWhiteSpace c =
     (unat c \<in> {9, 10, 11, 12, 13, 32, 160, 5760, 8232, 8233, 8239, 8287, 12288, 65279}
      \<or> (8192 \<le> unat c \<and> unat c \<le> 8202))"
  by (simp add: isWhiteSpace_def word_le_nat_alt word_unat_eq_iff)

lemma isUpper_unat: "isUpper c = (65 \<le> unat c \<and> unat c \<le> 90)"
  by (simp add: isUpper_def word_le_nat_alt)

lemma unat_add_32:
  assumes "isUpper c"
  shows "unat (c + 0x20) = unat c + 32"
proof -
  have "unat c \<le> 90"
    using assms by (simp add: isUpper_unat)
  then have "unat (c + 0x20) = unat c + unat (0x20 :: 16 word)"
    by (subst unat_add_lem [symmetric]) simp
  then show ?thesis by simp
qed

lemma isWhiteSpace_asciiLowerUnit: "isWhiteSpace (asciiLowerUnit c) = isWhiteSpace c"
proof (cases "isUpper c")
  case True
  then have "\<not> isWhiteSpace c" "\<not> isWhiteSpace (c + 0x20)"
    using unat_add_32 [OF True] by (simp_all add: isWhiteSpace_unat isUpper_unat)
  with True show ?thesis by (simp add: asciiLowerUnit_def)
next
  case False
  then show ?thesis by (simp add: asciiLowerUnit_def)
qed

lemma asciiLowerUnit_idem: "asciiLowerUnit (asciiLowerUnit c) = asciiLowerUnit c"
proof (cases "isUpper c")
  case True
  then have "\<not> isUpper (c + 0x20)"
    using unat_add_32 [OF True] by (simp add: isUpper_unat)
  with True show ?thesis by (simp add: asciiLowerUnit_def)
next
  case False
  then show ?thesis by (simp add: asciiLowerUnit_def)
qed

text \<open>
  The stand-in has the two properties of \<open>toLowerCase\<close> that the lookup relies on: it
  commutes with \<open>trim\<close> (lower-casing neither makes nor removes white space), and
  lower-casing twice is lower-casing once.
\<close>

lemma asciiLowerCase_trim: "asciiLowerCase (trim s) = trim (asciiLowerCase s)"
  by (simp add: asciiLowerCase_def trim_def rev_map dropWhile_map comp_def
        isWhiteSpace_asciiLowerUnit)

lemma asciiLowerCase_idem: "asciiLowerCase (asciiLowerCase s) = asciiLowerCase s"
  by (simp add: asciiLowerCase_def asciiLowerUnit_idem)

lemma dropWhile_all: "list_all P xs \<Longrightarrow> dropWhile P (xs @ ys) = dropWhile P ys"
  by (induction xs) auto

lemma dropWhile_all_Nil: "list_all P xs \<Longrightarrow> dropWhile P xs = []"
  by (simp add: list_all_iff)

lemma trim_surrounding:
  assumes "list_all isWhiteSpace l" "list_all isWhiteSpace r"
  shows "trim (l @ s @ r) = trim s"
proof -
  have r': "list_all isWhiteSpace (rev r)"
    using assms(2) by (simp add: list_all_iff)
  have l: "dropWhile isWhiteSpace (l @ s @ r) = dropWhile isWhiteSpace (s @ r)"
    using assms(1) by (rule dropWhile_all)
  show ?thesis
  proof (cases "list_all isWhiteSpace s")
    case True
    then have "list_all isWhiteSpace (s @ r)"
      using assms(2) by simp
    then have a: "dropWhile isWhiteSpace (s @ r) = []"
      by (rule dropWhile_all_Nil)
    have b: "dropWhile isWhiteSpace s = []"
      using True by (rule dropWhile_all_Nil)
    show ?thesis unfolding trim_def l a b by simp
  next
    case False
    then obtain x where "x \<in> set s" "\<not> isWhiteSpace x"
      by (auto simp: list_all_iff)
    then have a: "dropWhile isWhiteSpace (s @ r) = dropWhile isWhiteSpace s @ r"
      by (rule dropWhile_append1)
    show ?thesis unfolding trim_def l a rev_append dropWhile_all [OF r'] by simp
  qed
qed

lemma trim_idem: "trim (trim s) = trim s"
proof -
  define t where "t = dropWhile isWhiteSpace s"
  define w where "w = rev (dropWhile isWhiteSpace (rev t))"
  have tw: "t = w @ rev (takeWhile isWhiteSpace (rev t))"
  proof -
    have "rev (takeWhile isWhiteSpace (rev t) @ dropWhile isWhiteSpace (rev t)) = t"
      by (simp only: takeWhile_dropWhile_id rev_rev_ident)
    then show ?thesis unfolding w_def rev_append by (rule sym)
  qed
  have "dropWhile isWhiteSpace w = w"
  proof (cases "w = []")
    case True
    then show ?thesis by simp
  next
    case False
    then have "hd w = hd t" using tw by (metis hd_append2)
    moreover have "t \<noteq> []" using False tw by auto
    then have "\<not> isWhiteSpace (hd t)" unfolding t_def by (rule hd_dropWhile)
    ultimately show ?thesis using False by (cases w) auto
  qed
  then have "trim w = rev (dropWhile isWhiteSpace (rev w))"
    by (simp add: trim_def)
  also have "\<dots> = w" by (simp add: w_def)
  finally show ?thesis by (simp add: trim_def w_def t_def)
qed

text \<open>
  With these two properties the two setters of \<open>email\<close> commute, so the order in which
  Mongoose runs them is immaterial, and a normalised email is left as it is.
\<close>

lemma setEmail_idem:
  assumes "\<And>s. toLowerCase (trim s) = trim (toLowerCase s)"
      and "\<And>s. toLowerCase (toLowerCase s) = toLowerCase s"
  shows "setEmail toLowerCase (setEmail toLowerCase e) = setEmail toLowerCase e"
  by (simp add: setEmail_def assms trim_idem)

lemma split_no_separator: "sep \<notin> set t \<Longrightarrow> split sep t = [t]"
  by (induction t) auto

lemma split_Bearer: "0x20 \<notin> set t \<Longrightarrow> split 0x20 (js ''Bearer '' @ t) = [js ''Bearer'', t]"
  by (simp add: js_def split_no_separator)

section \<open>Properties of the model and of the collection\<close>

lemma find_unique:
  "distinct (map f xs) \<Longrightarrow> u \<in> set xs \<Longrightarrow> f u = k \<Longrightarrow> find (\<lambda>x. f x = k) xs = Some u"
  by (induction xs) (auto simp: image_iff)

lemma preSave_fields:
  assumes "preSave h m doc = Inr saved"
  shows "role saved = role doc \<and> email saved = email doc \<and> uid saved = uid doc \<and>
         name saved = name doc"
  using assms by (auto simp: preSave_def split: if_splits sum.splits)

lemma User_save_result:
  assumes "User_save h db doc = Inr (saved, db')"
  shows "db' = db @ [saved] \<and> role saved = role doc \<and> email saved = email doc \<and>
         \<not> list_ex (\<lambda>u. email u = email doc) db"
  using assms
  by (auto simp: User_save_def split: list.splits sum.splits if_splits dest!: preSave_fields)

lemma role_User_new:
  "in_role obj = None \<Longrightarrow> role (User_new toLowerCase oid obj) = js ''student''"
  by (simp add: User_new_def)

lemma email_User_new:
  "in_email obj = Some e \<Longrightarrow> email (User_new toLowerCase oid obj) = setEmail toLowerCase e"
  by (simp add: User_new_def)

text \<open>
  Every document that \<open>signup\<close> stores has a normalised email, and the unique index keeps
  the emails of the collection distinct: the two facts that the lookup at login uses.
\<close>

lemma signup_keeps_directory:
  assumes "\<And>s. toLowerCase (trim s) = trim (toLowerCase s)"
      and "\<And>s. toLowerCase (toLowerCase s) = toLowerCase s"
      and "signup toLowerCase h jsign key newId db req = (resp, db')"
      and "distinct (map email db)"
      and "list_all (\<lambda>u. setEmail toLowerCase (email u) = email u) db"
  shows "distinct (map email db') \<and>
         list_all (\<lambda>u. setEmail toLowerCase (email u) = email u) db'"
proof (cases "db' = db")
  case True
  with assms(4,5) show ?thesis by simp
next
  case False
  then obtain saved n e p where s: "User_save h db
      (User_new toLowerCase newId \<lparr>in_name = Some n, in_email = Some e, in_password = Some p,
         in_role = None\<rparr>) = Inr (saved, db')"
    using assms(3)
    by (auto simp: signup_def split: if_splits option.splits sum.splits prod.splits)
  from User_save_result [OF s]
  have "db' = db @ [saved]" "email saved = setEmail toLowerCase e"
       "\<not> list_ex (\<lambda>u. email u = setEmail toLowerCase e) db"
    by (simp_all add: email_User_new)
  with assms(4,5) setEmail_idem [of toLowerCase e, OF assms(1,2)] show ?thesis
    by (auto simp: list_ex_iff)
qed

section \<open>The specification, statement by statement\<close>

subsection \<open>Login\<close>

text \<open>
  C1. A login that fails because no account has the given email, or because the
  password does not verify against the stored hash, is answered with status 400 and
  the message \<open>Invalid credentials\<close>: the same response for both causes. (Both fields
  of the request are present; otherwise the handler asks for all fields before any
  lookup.)
\<close>

theorem login_failure_is_generic:
  assumes "b_email req = Some e" and "e \<noteq> []"
      and "b_password req = Some p" and "p \<noteq> []"
      and "User_findOne toLowerCase db e = None \<or>
           (\<exists>u. User_findOne toLowerCase db e = Some u \<and> comparePassword bcrypt_compare u p = Inr False)"
  shows "login toLowerCase bcrypt_compare jwt_sign JWT_SECRET db req =
           \<lparr>status = 400, json = MsgBody (js ''Invalid credentials'')\<rparr>"
  using assms by (auto simp: login_def invalidCredentials_def falsy_def)

lemmas evalString =
  js_def trim_def asciiLowerCase_def asciiLowerUnit_def isWhiteSpace_def charClasses setEmail_def

text \<open>
  The two causes on the sample collection: an unknown email, and the email of the
  sample account with a wrong password.
\<close>

theorem login_failure_is_generic_witness:
  "login asciiLowerCase sampleCompare sampleSign () [alice]
     \<lparr>b_name = None, b_email = Some (js ''nobody@b.com''), b_password = Some (js ''Abcdef1!''),
      b_role = None\<rparr> =
     \<lparr>status = 400, json = MsgBody (js ''Invalid credentials'')\<rparr>
   \<and> login asciiLowerCase sampleCompare sampleSign () [alice]
     \<lparr>b_name = None, b_email = Some (js ''a@b.com''), b_password = Some (js ''Wrong1!xx''),
      b_role = None\<rparr> =
     \<lparr>status = 400, json = MsgBody (js ''Invalid credentials'')\<rparr>"
proof -
  have unknown: "User_findOne asciiLowerCase [alice] (js ''nobody@b.com'') = None"
    by (simp add: User_findOne_def alice_def evalString)
  have known: "User_findOne asciiLowerCase [alice] (js ''a@b.com'') = Some alice"
    by (simp add: User_findOne_def alice_def evalString)
  have wrong: "comparePassword sampleCompare alice (js ''Wrong1!xx'') = Inr False"
    by (simp add: comparePassword_def sampleCompare_def alice_def js_def)
  show ?thesis
    using unknown known wrong
      login_failure_is_generic
        [where req = "\<lparr>b_name = None, b_email = Some (js ''nobody@b.com''),
                        b_password = Some (js ''Abcdef1!''), b_role = None\<rparr>"
           and e = "js ''nobody@b.com''" and p = "js ''Abcdef1!''" and db = "[alice]"
           and toLowerCase = asciiLowerCase and bcrypt_compare = sampleCompare
           and jwt_sign = sampleSign and JWT_SECRET = "()"]
      login_failure_is_generic
        [where req = "\<lparr>b_name = None, b_email = Some (js ''a@b.com''),
                        b_password = Some (js ''Wrong1!xx''), b_role = None\<rparr>"
           and e = "js ''a@b.com''" and p = "js ''Wrong1!xx''" and db = "[alice]"
           and toLowerCase = asciiLowerCase and bcrypt_compare = sampleCompare
           and jwt_sign = sampleSign and JWT_SECRET = "()"]
    by (simp add: js_def)
qed

text \<open>
  C2. The email given at login is trimmed and lower-cased before the lookup: a login
  whose email differs from the stored identity only in the case of its letters and
  in white space around it finds the account of that identity. Two emails differ only
  in the case of their letters when \<open>toLowerCase\<close> maps them to the same string; of
  \<open>toLowerCase\<close> the proof uses that it commutes with \<open>trim\<close>. The stored identity is
  normalised and unique in the collection, as \<open>signup_keeps_directory\<close> maintains.
\<close>

theorem login_lookup_ignores_case_and_spaces:
  assumes "\<And>s. toLowerCase (trim s) = trim (toLowerCase s)"
      and "u \<in> set db" and "distinct (map email db)"
      and "setEmail toLowerCase (email u) = email u"
      and "list_all isWhiteSpace l" and "list_all isWhiteSpace r"
      and "toLowerCase e = toLowerCase (email u)"
  shows "User_findOne toLowerCase db (l @ e @ r) = Some u"
proof -
  have "setEmail toLowerCase (l @ e @ r) = trim (toLowerCase e)"
    using assms(5,6) by (simp add: setEmail_def trim_surrounding assms(1))
  also have "\<dots> = setEmail toLowerCase (email u)"
    using assms(7) by (simp add: setEmail_def assms(1))
  finally have "setEmail toLowerCase (l @ e @ r) = email u"
    using assms(4) by simp
  then show ?thesis
    using assms(2,3) by (simp add: User_findOne_def find_unique)
qed

theorem login_lookup_ignores_case_and_spaces_witness:
  "User_findOne asciiLowerCase [alice] (js ''  A@B.Com '') = Some alice"
proof -
  have "setEmail asciiLowerCase (email alice) = email alice"
    by (simp add: alice_def evalString)
  moreover have "asciiLowerCase (js ''A@B.Com'') = asciiLowerCase (email alice)"
    by (simp add: alice_def evalString)
  moreover have "list_all isWhiteSpace (js ''  '')" "list_all isWhiteSpace (js '' '')"
    by (simp_all add: evalString)
  ultimately show ?thesis
    using login_lookup_ignores_case_and_spaces
            [where toLowerCase = asciiLowerCase and u = alice and db = "[alice]"
               and l = "js ''  ''" and r = "js '' ''" and e = "js ''A@B.Com''",
             OF asciiLowerCase_trim]
    by (simp add: js_def)
qed

subsection \<open>Password strength\<close>

lemma strengthErrors_violated:
  "strengthErrors pw = map ruleMessage (violated hookRuleHolds pw)"
  by (simp add: strengthErrors_def violated_def allRules_def not_less)

lemma ruleMessage_distinct: "distinct (map ruleMessage allRules)"
  by (simp add: allRules_def js_def)

text \<open>
  C3, as amended. The hook tests five rules, each on its own: at least 8 code units,
  an uppercase letter, a lowercase letter, a digit, and a code unit that is none of
  these. When a rule is violated the hook raises one error, of status code 400, whose
  message is \<open>Password is too weak.\<close> followed by the messages of exactly the violated
  rules, joined by a space; the five messages differ from each other. The upper bound
  of 128 is not among the rules of the hook: it is the \<open>maxlength\<close> validator of
  the schema.
\<close>

theorem validateStrength_collects_hook_rules:
  "validateStrength pw = collectsAll hookRuleHolds pw
   \<and> statusCode (weakPasswordError es) = Some 400
   \<and> err_message (weakPasswordError es) = js ''Password is too weak. '' @ join (js '' '') es
   \<and> distinct (map ruleMessage allRules)"
  by (simp add: validateStrength_def collectsAll_def strengthErrors_violated
        weakPasswordError_def Error_def ruleMessage_distinct split: list.splits)

text \<open>
  C3 as stated fails at a password of 129 letters \<open>a\<close>. It violates the length rule of
  the specification, the uppercase, the digit and the special-character rule. The hook
  reports the last three and not the length; and a \<open>save\<close> of a document with this
  password is rejected by the \<open>maxlength\<close> validator before the hook runs, with the
  message of that validator alone.
\<close>

theorem validateStrength_misses_upper_bound:
  "violated specRuleHolds (replicate 129 0x61) = [RuleLength, RuleUpper, RuleDigit, RuleSpecial]
   \<and> strengthErrors (replicate 129 0x61) = map ruleMessage [RuleUpper, RuleDigit, RuleSpecial]
   \<and> validateStrength (replicate 129 0x61) \<noteq> collectsAll specRuleHolds (replicate 129 0x61)
   \<and> User_save sampleHash []
        (User_new asciiLowerCase 7 \<lparr>in_name = Some (js ''A''), in_email = Some (js ''a@b.com''),
                     in_password = Some (replicate 129 0x61), in_role = None\<rparr>) =
      Inl (ValidationError [js ''Password cannot exceed 128 characters.''])"
proof -
  have v: "violated specRuleHolds (replicate 129 0x61) =
             [RuleLength, RuleUpper, RuleDigit, RuleSpecial]"
    by (simp add: violated_def allRules_def list_ex_iff charClasses)
  have e: "strengthErrors (replicate 129 0x61) =
             map ruleMessage [RuleUpper, RuleDigit, RuleSpecial]"
    by (simp add: strengthErrors_def list_ex_iff charClasses)
  have n: "validateStrength (replicate 129 0x61) \<noteq>
             collectsAll specRuleHolds (replicate 129 0x61)"
    unfolding validateStrength_def collectsAll_def v e
    by (simp add: weakPasswordError_def Error_def js_def)
  have s: "User_save sampleHash []
        (User_new asciiLowerCase 7 \<lparr>in_name = Some (js ''A''), in_email = Some (js ''a@b.com''),
                     in_password = Some (replicate 129 0x61), in_role = None\<rparr>) =
      Inl (ValidationError [js ''Password cannot exceed 128 characters.''])"
    by (simp add: User_save_def User_new_def validationMessages_def validateName_def
          validateEmail_def validatePassword_def validateRole_def List.map_filter_def
          setName_def matchEmail_def evalString)
  from v e n s show ?thesis by simp
qed

text \<open>
  On the way through \<open>save\<close> the length validators of the schema come before the hook:
  a document that is otherwise valid and whose password is shorter than 8 or longer
  than 128 code units is rejected with the message of that validator alone, whatever
  else the password lacks, and the hook is not reached.
\<close>

lemma User_save_length_validators:
  assumes "validateName (name doc) = None" and "validateEmail (email doc) = None"
      and "validateRole (role doc) = None" and "password doc \<noteq> []"
      and "length (password doc) < 8 \<or> 128 < length (password doc)"
  shows "User_save bcrypt_hash db doc =
           Inl (ValidationError
                  [if length (password doc) < 8
                   then js ''Password must be at least 8 characters long.''
                   else js ''Password cannot exceed 128 characters.''])"
  using assms
  by (auto simp: User_save_def validationMessages_def validatePassword_def
        List.map_filter_def)

text \<open>
  A document that passes the validators of the schema reaches the hook, and the save
  fails with the error of the hook when the hook finds a rule violated.
\<close>

lemma User_save_weak:
  assumes "validateName (name doc) = None" and "validateEmail (email doc) = None"
      and "validateRole (role doc) = None" and "validatePassword (password doc) = None"
      and "strengthErrors (password doc) = m # ms"
  shows "User_save bcrypt_hash db doc = Inl (weakPasswordError (m # ms))"
  using assms
  by (simp add: User_save_def validationMessages_def List.map_filter_def preSave_def
        validateStrength_def)

text \<open>
  C7. The strength validation of the registration, that is the length validators of
  the schema and the hook in the order in which \<open>save\<close> runs them, on the three secrets,
  in a document whose other paths are valid: \<open>short1!\<close> fails with the one message of
  the length rule, \<open>alllowercase1!\<close> with the one message of the uppercase rule, and
  \<open>NoDigits!\<close> with the one message of the digit rule.
\<close>

theorem save_strength_examples:
  assumes "validateName (name doc) = None" and "validateEmail (email doc) = None"
      and "validateRole (role doc) = None"
  shows "User_save bcrypt_hash db (doc\<lparr>password := js ''short1!''\<rparr>) =
           Inl (ValidationError [js ''Password must be at least 8 characters long.''])
       \<and> User_save bcrypt_hash db (doc\<lparr>password := js ''alllowercase1!''\<rparr>) =
           Inl (weakPasswordError [js ''Must contain at least one uppercase letter (A-Z).''])
       \<and> User_save bcrypt_hash db (doc\<lparr>password := js ''NoDigits!''\<rparr>) =
           Inl (weakPasswordError [js ''Must contain at least one number (0-9).''])"
proof -
  have 1: "User_save bcrypt_hash db (doc\<lparr>password := js ''short1!''\<rparr>) =
             Inl (ValidationError [js ''Password must be at least 8 characters long.''])"
    using assms User_save_length_validators [of "doc\<lparr>password := js ''short1!''\<rparr>"]
    by (simp add: js_def)
  have 2: "User_save bcrypt_hash db (doc\<lparr>password := js ''alllowercase1!''\<rparr>) =
             Inl (weakPasswordError [js ''Must contain at least one uppercase letter (A-Z).''])"
    using assms
    by (intro User_save_weak)
       (simp_all add: validatePassword_def strengthErrors_def js_def charClasses)
  have 3: "User_save bcrypt_hash db (doc\<lparr>password := js ''NoDigits!''\<rparr>) =
             Inl (weakPasswordError [js ''Must contain at least one number (0-9).''])"
    using assms
    by (intro User_save_weak)
       (simp_all add: validatePassword_def strengthErrors_def js_def charClasses)
  from 1 2 3 show ?thesis by simp
qed

text \<open>The three secrets in the place of the password of the sample account.\<close>

theorem save_strength_examples_witness:
  "User_save sampleHash [] (alice\<lparr>password := js ''short1!''\<rparr>) =
     Inl (ValidationError [js ''Password must be at least 8 characters long.''])
   \<and> User_save sampleHash [] (alice\<lparr>password := js ''alllowercase1!''\<rparr>) =
     Inl (weakPasswordError [js ''Must contain at least one uppercase letter (A-Z).''])
   \<and> User_save sampleHash [] (alice\<lparr>password := js ''NoDigits!''\<rparr>) =
     Inl (weakPasswordError [js ''Must contain at least one number (0-9).''])"
proof -
  have "validateName (name alice) = None" "validateEmail (email alice) = None"
      "validateRole (role alice) = None"
    by (simp_all add: alice_def validateName_def validateEmail_def validateRole_def
          matchEmail_def isWhiteSpace_def js_def)
  then show ?thesis
    by (rule save_strength_examples)
qed

text \<open>
  The same three secrets in the registration of the sample account: the signup handler
  answers each with status 400 and the one message, and stores nothing.
\<close>

lemma signup_strength_examples:
  "signup asciiLowerCase sampleHash sampleSign () 7 []
     \<lparr>b_name = Some (js ''A''), b_email = Some (js ''a@b.com''),
      b_password = Some (js ''short1!''), b_role = None\<rparr> =
     (\<lparr>status = 400, json = MsgBody (js ''Password must be at least 8 characters long.'')\<rparr>,
      [])"
  "signup asciiLowerCase sampleHash sampleSign () 7 []
     \<lparr>b_name = Some (js ''A''), b_email = Some (js ''a@b.com''),
      b_password = Some (js ''alllowercase1!''), b_role = None\<rparr> =
     (\<lparr>status = 400,
       json = MsgBody
         (js ''Password is too weak. Must contain at least one uppercase letter (A-Z).'')\<rparr>,
      [])"
  "signup asciiLowerCase sampleHash sampleSign () 7 []
     \<lparr>b_name = Some (js ''A''), b_email = Some (js ''a@b.com''),
      b_password = Some (js ''NoDigits!''), b_role = None\<rparr> =
     (\<lparr>status = 400,
       json = MsgBody (js ''Password is too weak. Must contain at least one number (0-9).'')\<rparr>,
      [])"
  by (simp_all add: signup_def falsy_def User_findOne_def User_new_def User_save_def
        validationMessages_def validateName_def validateEmail_def validatePassword_def
        validateRole_def List.map_filter_def setName_def matchEmail_def signupCatch_def
        ValidationError_def preSave_def validateStrength_def strengthErrors_def
        weakPasswordError_def Error_def evalString)

subsection \<open>Failures of the hash comparison\<close>

lemma replicate_2: "replicate 2 x = [x, x]"
  by (simp add: numeral_2_eq_2)

text \<open>
  C8, as amended. \<open>comparePassword\<close> returns the boolean that \<open>bcrypt.compare\<close> returns,
  and when \<open>bcrypt.compare\<close> throws it throws as well: it does not turn an error into
  \<open>false\<close>. The login handler answers such an error with status 500 and the body
  \<open>{ error: 'Server error during login' }\<close>, never with \<open>Invalid credentials\<close>.
\<close>

theorem comparePassword_failure_is_server_error:
  assumes "b_email req = Some e" and "e \<noteq> []"
      and "b_password req = Some p" and "p \<noteq> []"
      and "User_findOne toLowerCase db e = Some u"
      and "bcrypt_compare p (password u) = Inl err"
  shows "comparePassword bcrypt_compare u p = Inl (Error (errorToString err))
       \<and> login toLowerCase bcrypt_compare jwt_sign JWT_SECRET db req =
           \<lparr>status = 500, json = ErrorBody (js ''Server error during login'')\<rparr>
       \<and> login toLowerCase bcrypt_compare jwt_sign JWT_SECRET db req \<noteq>
           \<lparr>status = 400, json = MsgBody (js ''Invalid credentials'')\<rparr>
       \<and> (comparePassword bcrypt_compare u' p' = Inr b) =
           (bcrypt_compare p' (password u') = Inr b)"
  using assms
  by (auto simp: login_def comparePassword_def loginCatch_def falsy_def split: sum.splits)

text \<open>
  A login to an account whose stored password is 60 letters \<open>x\<close>, a corrupt hash.
\<close>

theorem comparePassword_failure_is_server_error_witness:
  "login asciiLowerCase rejectingCompare sampleSign () [alice\<lparr>password := replicate 60 0x78\<rparr>]
     \<lparr>b_name = None, b_email = Some (js ''a@b.com''), b_password = Some (js ''Abcdef1!''),
      b_role = None\<rparr> =
     \<lparr>status = 500, json = ErrorBody (js ''Server error during login'')\<rparr>"
proof -
  have f: "User_findOne asciiLowerCase [alice\<lparr>password := replicate 60 0x78\<rparr>] (js ''a@b.com'') =
             Some (alice\<lparr>password := replicate 60 0x78\<rparr>)"
    by (simp add: User_findOne_def alice_def evalString)
  have c: "rejectingCompare (js ''Abcdef1!'')
             (password (alice\<lparr>password := replicate 60 0x78\<rparr>)) =
           Inl (Error (js ''Invalid salt version: xx''))"
    by (simp add: rejectingCompare_def js_def replicate_2)
  show ?thesis
    using f c
      comparePassword_failure_is_server_error
        [where req = "\<lparr>b_name = None, b_email = Some (js ''a@b.com''),
                        b_password = Some (js ''Abcdef1!''), b_role = None\<rparr>"
           and e = "js ''a@b.com''" and p = "js ''Abcdef1!''"
           and db = "[alice\<lparr>password := replicate 60 0x78\<rparr>]"
           and u = "alice\<lparr>password := replicate 60 0x78\<rparr>"
           and toLowerCase = asciiLowerCase
           and bcrypt_compare = rejectingCompare and jwt_sign = sampleSign
           and JWT_SECRET = "()"]
    by (simp add: js_def)
qed

text \<open>
  C8 as stated fails where \<open>bcrypt.compare\<close> throws on the stored hash, as it does for
  60 letters \<open>x\<close>: \<open>comparePassword\<close> throws, and does not return \<open>false\<close>.
\<close>

theorem comparePassword_rethrows:
  "comparePassword rejectingCompare (alice\<lparr>password := replicate 60 0x78\<rparr>) (js ''Abcdef1!'') =
     Inl (Error (js ''Error: Invalid salt version: xx''))
   \<and> comparePassword rejectingCompare (alice\<lparr>password := replicate 60 0x78\<rparr>) (js ''Abcdef1!'')
       \<noteq> Inr False"
  by (simp add: comparePassword_def rejectingCompare_def errorToString_def Error_def js_def
        replicate_2)

subsection \<open>Registration\<close>

text \<open>
  C10. Every account that the signup handler creates has the role \<open>student\<close>. The
  handler leaves the collection as it is or appends one document, and that document
  has the role \<open>student\<close>; a response of status 201 comes with such a document; and a
  role in the body of the request changes neither the response nor the collection.
\<close>

theorem signup_role_student:
  assumes "signup toLowerCase bcrypt_hash jwt_sign JWT_SECRET newId db req = (resp, db')"
  shows "(db' = db \<or> (\<exists>u. db' = db @ [u] \<and> role u = js ''student''))
       \<and> (status resp = 201 \<longrightarrow> (\<exists>u. db' = db @ [u] \<and> role u = js ''student''))
       \<and> signup toLowerCase bcrypt_hash jwt_sign JWT_SECRET newId db (req\<lparr>b_role := r\<rparr>) = (resp, db')"
proof -
  have "signup toLowerCase bcrypt_hash jwt_sign JWT_SECRET newId db (req\<lparr>b_role := r\<rparr>) =
        signup toLowerCase bcrypt_hash jwt_sign JWT_SECRET newId db req"
    by (simp add: signup_def)
  moreover have "db' = db \<or> (\<exists>u. db' = db @ [u] \<and> role u = js ''student'')"
    using assms
    by (auto simp: signup_def role_User_new
          split: if_splits option.splits sum.splits prod.splits dest!: User_save_result)
  moreover have "status resp = 201 \<longrightarrow> (\<exists>u. db' = db @ [u] \<and> role u = js ''student'')"
    using assms
    by (auto simp: signup_def role_User_new enterAllFields_def userExists_def signupCatch_def
          split: if_splits option.splits sum.splits prod.splits dest!: User_save_result)
  ultimately show ?thesis
    using assms by simp
qed

text \<open>
  The registration of the sample account, with the role \<open>admin\<close> in the body of the
  request: the response has status 201 and the stored account has the role \<open>student\<close>.
\<close>

theorem signup_role_student_witness:
  "signup asciiLowerCase sampleHash sampleSign () 7 []
     \<lparr>b_name = Some (js ''A''), b_email = Some (js ''a@b.com''),
      b_password = Some (js ''Abcdef1!''), b_role = Some (js ''admin'')\<rparr> =
     (\<lparr>status = 201,
       json = AuthBody (js ''header.payload.signature'') 7 (js ''A'') (js ''a@b.com'')\<rparr>, [alice])
   \<and> role alice = js ''student''"
proof -
  have run: "signup asciiLowerCase sampleHash sampleSign () 7 []
     \<lparr>b_name = Some (js ''A''), b_email = Some (js ''a@b.com''),
      b_password = Some (js ''Abcdef1!''), b_role = None\<rparr> =
     (\<lparr>status = 201,
       json = AuthBody (js ''header.payload.signature'') 7 (js ''A'') (js ''a@b.com'')\<rparr>, [alice])"
    by (simp add: signup_def falsy_def User_findOne_def User_new_def User_save_def
          validationMessages_def validateName_def validateEmail_def validatePassword_def
          validateRole_def List.map_filter_def preSave_def validateStrength_def
          strengthErrors_def setName_def matchEmail_def sampleHash_def sampleSign_def
          alice_def evalString)
  show ?thesis
    using signup_role_student [OF run, of "Some (js ''admin'')"]
    by (simp add: alice_def)
qed

subsection \<open>The credential hash of the specification\<close>

lemma strong_family: "length w = 12 \<Longrightarrow> validateStrength (js ''Aa1!'' @ w) = Inr ()"
  by (simp add: validateStrength_def strengthErrors_def js_def charClasses)

text \<open>
  There are more passwords that pass the strength validation than digests: the
  passwords \<open>Aa1!\<close> followed by twelve arbitrary code units number \<open>2 ^ 192\<close>, the
  digests \<open>2 ^ 184\<close>. So every digest function maps two different valid passwords to
  the same digest.
\<close>

lemma digest_collision:
  fixes f :: "jsstring \<Rightarrow> 184 word"
  shows "\<exists>s s2. validateStrength s = Inr () \<and> validateStrength s2 = Inr () \<and> s2 \<noteq> s \<and>
           f s = f s2"
proof -
  let ?W = "{w :: jsstring. length w = 12}"
  let ?A = "(\<lambda>w. js ''Aa1!'' @ w) ` ?W"
  have cW: "card ?W = (2 ^ 16) ^ 12"
    using card_lists_length_eq [of "UNIV :: 16 word set" 12] by (simp add: card_word)
  have "inj_on (\<lambda>w. js ''Aa1!'' @ w) ?W"
    by (simp add: inj_on_def)
  then have cA: "card ?A = (2 ^ 16) ^ 12"
    using cW by (simp add: card_image)
  have "card (f ` ?A) \<le> card (UNIV :: 184 word set)"
    by (rule card_mono) auto
  also have "\<dots> = 2 ^ 184"
    by (simp add: card_word)
  also have "\<dots> < ((2 ^ 16) ^ 12 :: nat)"
    by (simp add: power_mult [symmetric])
  finally have "card (f ` ?A) < card ?A"
    using cA by simp
  then have "\<not> inj_on f ?A"
    using pigeonhole by blast
  then obtain x y where xy: "x \<in> ?A" "y \<in> ?A" "x \<noteq> y" "f x = f y"
    by (auto simp: inj_on_def)
  from xy(1,2) have "validateStrength x = Inr ()" "validateStrength y = Inr ()"
    by (auto simp: strong_family)
  with xy show ?thesis by metis
qed

text \<open>
  C4, as amended. For every secret \<open>s\<close>, \<open>verify(s, hash(s))\<close> is true. For another secret
  \<open>s2\<close>, \<open>verify(s, hash(s2))\<close> is true exactly when \<open>s\<close> and \<open>s2\<close> have the same digest
  under the work factor and the salt of \<open>hash(s2)\<close>, and false otherwise.
\<close>

theorem verifySecret_hashSecret:
  "verifySecret kdf s (hashSecret kdf slt s)
   \<and> verifySecret kdf s (hashSecret kdf slt s2) = (kdf 12 slt s = kdf 12 slt s2)"
  by (simp add: verifySecret_def hashSecret_def)

text \<open>
  C4 as stated fails: whatever the digest function and the salt, there are two
  different secrets that both pass the strength validation such that the one verifies
  against the hash of the other.
\<close>

theorem verifySecret_accepts_colliding_secret:
  "\<forall>kdf slt. \<exists>s s2. validateStrength s = Inr () \<and> validateStrength s2 = Inr () \<and> s2 \<noteq> s \<and>
     verifySecret kdf s (hashSecret kdf slt s2)"
proof (intro allI)
  fix kdf :: "nat \<Rightarrow> 128 word \<Rightarrow> jsstring \<Rightarrow> 184 word" and slt
  obtain s s2 where c: "validateStrength s = Inr ()" "validateStrength s2 = Inr ()" "s2 \<noteq> s"
      "kdf 12 slt s = kdf 12 slt s2"
    using digest_collision [of "kdf 12 slt"] by blast
  then have "verifySecret kdf s (hashSecret kdf slt s2)"
    by (simp add: verifySecret_def hashSecret_def)
  with c show "\<exists>s s2. validateStrength s = Inr () \<and> validateStrength s2 = Inr () \<and> s2 \<noteq> s \<and>
      verifySecret kdf s (hashSecret kdf slt s2)"
    by blast
qed

subsection \<open>The session token of the specification\<close>

text \<open>
  C5. A token verified at the moment of its issue yields the subject for which it was
  issued. On the encoded token: the middleware, given the header \<open>Bearer\<close> and the token
  that \<open>jwt.sign\<close> has just returned for a subject, calls \<open>next\<close> with that subject in
  \<open>req.user\<close>. The encoding decodes to the token, is not empty and holds no space.
\<close>

theorem token_round_trip:
  assumes "decode (encode (issueToken mac key now sevenDays subj)) =
             Some (issueToken mac key now sevenDays subj)"
      and "0x20 \<notin> set (encode (issueToken mac key now sevenDays subj))"
      and "encode (issueToken mac key now sevenDays subj) \<noteq> []"
  shows "verifyToken mac key now (issueToken mac key now sevenDays subj) =
           Inr \<lparr>subject = subj, issuedAt = now, expiresAt = now + sevenDays\<rparr>
       \<and> (\<exists>t. jwtSign encode mac now subj key sevenDays = Inr t \<and>
            authenticateToken (jwtVerify decode mac now) key (Some (js ''Bearer '' @ t)) =
              Next \<lparr>subject = subj, issuedAt = now, expiresAt = now + sevenDays\<rparr>)"
proof -
  let ?tok = "issueToken mac key now sevenDays subj"
  have v: "verifyToken mac key now ?tok =
             Inr \<lparr>subject = subj, issuedAt = now, expiresAt = now + sevenDays\<rparr>"
    by (simp add: issueToken_def verifyToken_def sevenDays_def Let_def)
  have "authenticateToken (jwtVerify decode mac now) key (Some (js ''Bearer '' @ encode ?tok)) =
          Next \<lparr>subject = subj, issuedAt = now, expiresAt = now + sevenDays\<rparr>"
    using assms v
    by (simp add: authenticateToken_def split_Bearer at_def falsy_def jwtVerify_def)
  then show ?thesis
    using v by (simp add: jwtSign_def)
qed

lemma sampleEncode_ok:
  "sampleDecode (sampleEncode sampleToken) = Some sampleToken"
  "0x20 \<notin> set (sampleEncode sampleToken)"
  "sampleEncode sampleToken \<noteq> []"
  by (simp_all add: sampleDecode_def sampleEncode_def js_def)

theorem token_round_trip_witness:
  "authenticateToken (jwtVerify sampleDecode sampleMac 1000) 42
     (Some (js ''Bearer header.payload.signature'')) =
     Next \<lparr>subject = 7, issuedAt = 1000, expiresAt = 1000 + 604800\<rparr>"
  using token_round_trip [of sampleDecode sampleEncode sampleMac 42 1000 7]
        sampleEncode_ok
  by (simp add: sampleToken_def jwtSign_def sampleEncode_def sevenDays_def js_def)

text \<open>
  C6. A token expires 7 days after its issue. The verification of an issued token
  fails with \<open>ExpiredToken\<close> exactly when the current time has reached \<open>expiresAt\<close>;
  before that it succeeds; it succeeds at \<open>expiresAt - 1\<close> and fails at
  \<open>expiresAt + 1\<close>. The middleware answers the expired token with status 403.
\<close>

theorem token_expiry:
  assumes "tok = issueToken mac key t0 sevenDays subj"
      and "decode (encode tok) = Some tok"
      and "0x20 \<notin> set (encode tok)"
      and "encode tok \<noteq> []"
  shows "expiresAt (payload tok) = issuedAt (payload tok) + 7 * 24 * 60 * 60
       \<and> (verifyToken mac key now tok = Inl ExpiredToken) = (expiresAt (payload tok) \<le> now)
       \<and> (now < expiresAt (payload tok) \<longrightarrow> verifyToken mac key now tok = Inr (payload tok))
       \<and> verifyToken mac key (expiresAt (payload tok) - 1) tok = Inr (payload tok)
       \<and> verifyToken mac key (expiresAt (payload tok) + 1) tok = Inl ExpiredToken
       \<and> authenticateToken (jwtVerify decode mac now) key (Some (js ''Bearer '' @ encode tok)) =
           (if expiresAt (payload tok) \<le> now then SendStatus 403 else Next (payload tok))"
proof -
  have sig: "signature tok = mac key (payload tok)"
    using assms(1) by (simp add: issueToken_def Let_def)
  have ex: "expiresAt (payload tok) = issuedAt (payload tok) + 7 * 24 * 60 * 60"
    using assms(1) by (simp add: issueToken_def sevenDays_def Let_def)
  have v: "verifyToken mac key t tok =
             (if expiresAt (payload tok) \<le> t then Inl ExpiredToken else Inr (payload tok))" for t
    using sig by (simp add: verifyToken_def)
  have "authenticateToken (jwtVerify decode mac now) key (Some (js ''Bearer '' @ encode tok)) =
          (if expiresAt (payload tok) \<le> now then SendStatus 403 else Next (payload tok))"
    using assms(2-4) v [of now]
    by (simp add: authenticateToken_def split_Bearer at_def falsy_def jwtVerify_def)
  moreover have "0 < expiresAt (payload tok)"
    using ex by simp
  ultimately show ?thesis
    using ex by (simp add: v)
qed

theorem token_expiry_witness:
  "verifyToken sampleMac 42 (1000 + 604800 - 1) sampleToken = Inr (payload sampleToken)
   \<and> verifyToken sampleMac 42 (1000 + 604800) sampleToken = Inl ExpiredToken
   \<and> authenticateToken (jwtVerify sampleDecode sampleMac (1000 + 604800 + 1)) 42
       (Some (js ''Bearer header.payload.signature'')) = SendStatus 403"
proof -
  have e: "expiresAt (payload sampleToken) = 1000 + 604800"
    by (simp add: sampleToken_def issueToken_def sevenDays_def Let_def)
  show ?thesis
    using token_expiry [of sampleToken sampleMac 42 1000 7 sampleDecode sampleEncode
                          "1000 + 604800 - 1"]
          token_expiry [of sampleToken sampleMac 42 1000 7 sampleDecode sampleEncode
                          "1000 + 604800"]
          token_expiry [of sampleToken sampleMac 42 1000 7 sampleDecode sampleEncode
                          "1000 + 604800 + 1"]
          sampleEncode_ok e
    by (simp add: sampleToken_def sampleEncode_def js_def)
qed


end
